theory Spec2Isabelle
  imports Complex_Main
begin

section \<open>JavaScript strings\<close>

text \<open>
  A JavaScript string is a sequence of code units; the model is \<^typ>\<open>string\<close>, the code
  units below 256.  \<open>String.prototype.trim\<close> strips the white space and line terminator
  code units from both ends; below 256 these are TAB, LF, VT, FF, CR, SPACE and NBSP.
\<close>

definition is_space :: "char \<Rightarrow> bool" where
  "is_space c = (c = CHR 0x09 \<or> c = CHR 0x0A \<or> c = CHR 0x0B \<or> c = CHR 0x0C
     \<or> c = CHR 0x0D \<or> c = CHR 0x20 \<or> c = CHR 0xA0)"

definition trim :: "string \<Rightarrow> string" where
  "trim s = rev (dropWhile is_space (rev (dropWhile is_space s)))"

text \<open>
  \<open>String.prototype.toLowerCase\<close> on code units below 256: the letters A-Z and the
  Latin-1 capitals (0xC0-0xDE without the multiplication sign 0xD7) move up by 32.
\<close>

definition lower_char :: "char \<Rightarrow> char" where
  "lower_char c =
     (let n = of_char c :: nat
      in if (65 \<le> n \<and> n \<le> 90) \<or> (192 \<le> n \<and> n \<le> 222 \<and> n \<noteq> 215)
         then char_of (n + 32) else c)"

definition toLowerCase :: "string \<Rightarrow> string" where
  "toLowerCase s = map lower_char s"

section \<open>The CSV tokenizer: parseCSVLine\<close>

text \<open>
  The \<open>for\<close> loop of \<open>parseCSVLine\<close> over the rest of the line, with the loop variables
  \<open>current\<close>, \<open>inQuotes\<close> and \<open>result\<close>.  \<open>nextChar\<close> is the head of the rest, and
  \<open>i++\<close> in the escaped-quote branch drops it.
\<close>

fun csv_loop :: "string \<Rightarrow> string \<Rightarrow> bool \<Rightarrow> string list \<Rightarrow> string list" where
  "csv_loop [] current inQuotes result = result @ [trim current]"
| "csv_loop (c # rest) current inQuotes result =
     (if c = CHR 0x22 then
        (if inQuotes \<and> take 1 rest = [CHR 0x22]
         then csv_loop (drop 1 rest) (current @ [CHR 0x22]) inQuotes result
         else csv_loop rest current (\<not> inQuotes) result)
      else if c = CHR '','' \<and> \<not> inQuotes
        then csv_loop rest [] inQuotes (result @ [trim current])
      else csv_loop rest (current @ [c]) inQuotes result)"

definition parseCSVLine :: "string \<Rightarrow> string list" where
  "parseCSVLine line = csv_loop line [] False []"

section \<open>The CSV parser: parseCSV\<close>

text \<open>
  What a \<open>catch\<close> clause can receive: an \<open>Error\<close> object with its message, or any other
  thrown value.
\<close>

datatype thrown = Error string | NonError

record 'f column =
  csvHeader :: string
  field :: 'f

record 't ParseCSVResult =
  data :: "'t list"
  errors :: "string list"

text \<open>
  The row record \<open>Record<string, string>\<close> handed to the transform, a plain object
  created as \<open>{}\<close>: the map holds its own properties, from header names to cells.
  The key \<open>__proto__\<close> never becomes an own property: an assignment of a string to
  it is ignored, and a read of it gives the prototype object and not a cell.
\<close>

type_synonym row = "string \<rightharpoonup> string"

text \<open>
  \<open>text.split(/\r?\n/)\<close>: scanning from the left, a separator is LF, or CR directly
  followed by LF; a CR not followed by LF stays in its line.  The text without any
  separator, also the empty text, is one line.
\<close>

fun split_loop :: "string \<Rightarrow> string \<Rightarrow> string list" where
  "split_loop [] current = [current]"
| "split_loop (c # rest) current =
     (if c = CHR 0x0A then current # split_loop rest []
      else if c = CHR 0x0D \<and> take 1 rest = [CHR 0x0A] then current # split_loop (drop 1 rest) []
      else split_loop rest (current @ [c]))"

definition split_lines :: "string \<Rightarrow> string list" where
  "split_lines text = split_loop text []"

text \<open>\<open>.filter(line => line.trim())\<close>: a string is truthy when it is not empty.\<close>

definition nonblank_lines :: "string \<Rightarrow> string list" where
  "nonblank_lines text = filter (\<lambda>line. trim line \<noteq> []) (split_lines text)"

text \<open>\<open>Array.prototype.findIndex\<close>; \<open>None\<close> is the result -1.\<close>

fun findIndex :: "('a \<Rightarrow> bool) \<Rightarrow> 'a list \<Rightarrow> nat option" where
  "findIndex p [] = None"
| "findIndex p (x # xs) = (if p x then Some 0 else map_option Suc (findIndex p xs))"

definition header_matches :: "string \<Rightarrow> string \<Rightarrow> bool" where
  "header_matches name h = (trim (toLowerCase h) = trim (toLowerCase name))"

text \<open>\<open>index === -1\<close> for the column's header among the header cells.\<close>

definition header_missing :: "string list \<Rightarrow> 'f column \<Rightarrow> bool" where
  "header_missing headers col = (findIndex (header_matches (csvHeader col)) headers = None)"

text \<open>The decimal numeral that a template literal prints for a natural number.\<close>

fun decimal :: "nat \<Rightarrow> string" where
  "decimal n = (if n < 10 then [char_of (48 + n)]
                else decimal (n div 10) @ [char_of (48 + n mod 10)])"

declare decimal.simps [simp del]

definition missing_column :: "string \<Rightarrow> string" where
  "missing_column name = ''Required column '' @ [CHR 0x22] @ name @ [CHR 0x22] @ '' not found in CSV''"

text \<open>
  One round of the first \<open>columnMapping.forEach\<close>: the state is the map
  \<open>columnIndices\<close> and the array \<open>errors\<close>.
\<close>

definition resolve_column ::
  "string list \<Rightarrow> 'f column \<Rightarrow> ('f \<rightharpoonup> nat) \<times> string list \<Rightarrow> ('f \<rightharpoonup> nat) \<times> string list" where
  "resolve_column headers col st =
     (case findIndex (header_matches (csvHeader col)) headers of
        None \<Rightarrow> (fst st, snd st @ [missing_column (csvHeader col)])
      | Some index \<Rightarrow> ((fst st)(field col \<mapsto> index), snd st))"

definition resolve_columns ::
  "string list \<Rightarrow> 'f column list \<Rightarrow> ('f \<rightharpoonup> nat) \<times> string list" where
  "resolve_columns headers columnMapping = fold (resolve_column headers) columnMapping (Map.empty, [])"

text \<open>
  \<open>values[index] || ''\<close>: reading past the end of an array gives \<open>undefined\<close>
  (\<open>None\<close>), and \<open>||\<close> replaces \<open>undefined\<close> and the empty string by \<open>''\<close>.
\<close>

definition js_index :: "'a list \<Rightarrow> nat \<Rightarrow> 'a option" where
  "js_index xs i = (if i < length xs then Some (xs ! i) else None)"

definition or_empty :: "string option \<Rightarrow> string" where
  "or_empty v = (case v of None \<Rightarrow> [] | Some s \<Rightarrow> (if s = [] then [] else s))"

text \<open>
  The assignment \<open>rowData[key] = value\<close> of a string to a property of the plain
  object: it creates or replaces the own property, but for the key \<open>__proto__\<close> it
  does nothing.
\<close>

definition assign_property :: "row \<Rightarrow> string \<Rightarrow> string \<Rightarrow> row" where
  "assign_property rowData key v = (if key = ''__proto__'' then rowData else rowData(key \<mapsto> v))"

text \<open>One round of the second \<open>columnMapping.forEach\<close>, and the whole of it.\<close>

definition project_column :: "('f \<rightharpoonup> nat) \<Rightarrow> string list \<Rightarrow> 'f column \<Rightarrow> row \<Rightarrow> row" where
  "project_column columnIndices values col rowData =
     (case columnIndices (field col) of
        None \<Rightarrow> rowData
      | Some index \<Rightarrow> assign_property rowData (csvHeader col) (or_empty (js_index values index)))"

definition project_row :: "('f \<rightharpoonup> nat) \<Rightarrow> string list \<Rightarrow> 'f column list \<Rightarrow> row" where
  "project_row columnIndices values columnMapping =
     fold (project_column columnIndices values) columnMapping Map.empty"

text \<open>The row record that the loop builds for the data line \<open>lines[i]\<close>.\<close>

definition row_of :: "'f column list \<Rightarrow> ('f \<rightharpoonup> nat) \<Rightarrow> string \<Rightarrow> row" where
  "row_of columnMapping columnIndices l =
     project_row columnIndices (parseCSVLine (trim l)) columnMapping"

definition thrown_message :: "thrown \<Rightarrow> string" where
  "thrown_message e = (case e of Error m \<Rightarrow> m | NonError \<Rightarrow> ''Invalid data'')"

definition row_error :: "nat \<Rightarrow> thrown \<Rightarrow> string" where
  "row_error i e = ''Error on row '' @ decimal (i + 1) @ '': '' @ thrown_message e"

text \<open>
  The data-row loop \<open>for (let i = 1; i < lines.length; i++)\<close>: \<open>i\<close> is the index of
  the head of the remaining lines in \<open>lines\<close>; \<open>recs\<close> and \<open>errs\<close> are the arrays
  \<open>data\<close> and \<open>errors\<close> being filled.  A transform that throws is \<open>Inl\<close>.
\<close>

fun rows_loop ::
  "'f column list \<Rightarrow> ('f \<rightharpoonup> nat) \<Rightarrow> (row \<Rightarrow> thrown + 't) \<Rightarrow> nat \<Rightarrow> string list
     \<Rightarrow> 't list \<Rightarrow> string list \<Rightarrow> 't list \<times> string list" where
  "rows_loop columnMapping columnIndices transform i [] recs errs = (recs, errs)"
| "rows_loop columnMapping columnIndices transform i (l # rest) recs errs =
     (let line = trim l in
      if line = [] then rows_loop columnMapping columnIndices transform (i + 1) rest recs errs
      else
        let values = parseCSVLine line;
            rowData = project_row columnIndices values columnMapping
        in case transform rowData of
             Inr transformedRow \<Rightarrow>
               rows_loop columnMapping columnIndices transform (i + 1) rest (recs @ [transformedRow]) errs
           | Inl e \<Rightarrow>
               rows_loop columnMapping columnIndices transform (i + 1) rest recs (errs @ [row_error i e]))"

text \<open>The body of \<open>reader.onload\<close>, on the text of the file.\<close>

definition parseCSV_text ::
  "'f column list \<Rightarrow> (row \<Rightarrow> thrown + 't) \<Rightarrow> string \<Rightarrow> 't ParseCSVResult" where
  "parseCSV_text columnMapping transform text =
     (case nonblank_lines text of
        [] \<Rightarrow> \<lparr>data = [], errors = [''CSV file is empty'']\<rparr>
      | headerLine # dataLines \<Rightarrow>
          let headers = parseCSVLine headerLine;
              (columnIndices, errs) = resolve_columns headers columnMapping
          in if length errs > 0 then \<lparr>data = [], errors = errs\<rparr>
             else
               let (recs, errs') = rows_loop columnMapping columnIndices transform 1 dataLines [] errs
               in \<lparr>data = recs, errors = errs'\<rparr>)"

text \<open>
  What the \<open>FileReader\<close> delivers: the text (\<open>onload\<close>) or a failure (\<open>onerror\<close>).
  Without a transform the row record itself is the record: \<open>parseCSV columnMapping Inr\<close>.
\<close>

datatype file_read = Loaded string | ReadFailed

definition parseCSV ::
  "file_read \<Rightarrow> 'f column list \<Rightarrow> (row \<Rightarrow> thrown + 't) \<Rightarrow> 't ParseCSVResult" where
  "parseCSV file columnMapping transform =
     (case file of
        Loaded text \<Rightarrow> parseCSV_text columnMapping transform text
      | ReadFailed \<Rightarrow> \<lparr>data = [], errors = [''Failed to read file'']\<rparr>)"

section \<open>Validation rules\<close>

text \<open>
  A cell read from a row record is a string or, for an absent key, \<open>undefined\<close>
  (\<open>None\<close>).  \<open>js_string\<close> is the conversion to a string that \<open>parseInt\<close> and
  \<open>parseFloat\<close> apply to their argument.
\<close>

definition js_string :: "string option \<Rightarrow> string" where
  "js_string v = (case v of None \<Rightarrow> ''undefined'' | Some s \<Rightarrow> s)"

definition validateRequired :: "string option \<Rightarrow> string \<Rightarrow> thrown + string" where
  "validateRequired v fieldName =
     (case v of
        None \<Rightarrow> Inl (Error (fieldName @ '' is required''))
      | Some s \<Rightarrow> (if s = [] \<or> trim s = [] then Inl (Error (fieldName @ '' is required''))
                   else Inr (trim s)))"

text \<open>
  The values of type \<open>number\<close> that \<open>parseInt\<close> can return: NaN, an integer, or an
  infinity when the digits exceed the range of a double.  \<open>Num v\<close> stands for the
  double nearest to \<open>v\<close>, which is \<open>v\<close> itself up to \<open>2 ^ 53\<close> and an integer always.
\<close>

datatype number = NaN | Num int | PosInfinity | NegInfinity

definition to_number :: "int \<Rightarrow> number" where
  "to_number v = (if \<bar>v\<bar> < 2 ^ 1024 - 2 ^ 970 then Num v
                  else if v < 0 then NegInfinity else PosInfinity)"

definition digit_value :: "char \<Rightarrow> nat option" where
  "digit_value c =
     (let n = of_char c :: nat
      in if 48 \<le> n \<and> n \<le> 57 then Some (n - 48)
         else if 97 \<le> n \<and> n \<le> 122 then Some (n - 87)
         else if 65 \<le> n \<and> n \<le> 90 then Some (n - 55)
         else None)"

definition radix_digit :: "nat \<Rightarrow> char \<Rightarrow> bool" where
  "radix_digit radix c = (case digit_value c of None \<Rightarrow> False | Some d \<Rightarrow> d < radix)"

definition digits_value :: "nat \<Rightarrow> string \<Rightarrow> nat" where
  "digits_value radix z =
     foldl (\<lambda>acc c. acc * radix + (case digit_value c of None \<Rightarrow> 0 | Some d \<Rightarrow> d)) 0 z"

text \<open>
  \<open>parseInt(string)\<close> with no radix: leading white space is skipped, a sign is read,
  a prefix \<open>0x\<close> or \<open>0X\<close> selects radix 16, and the longest run of digits is the
  value; whatever follows the digits is ignored.  No digit at all gives NaN.
\<close>

definition parseInt :: "string \<Rightarrow> number" where
  "parseInt s =
     (let s1 = dropWhile is_space s;
          negative = (take 1 s1 = ''-'');
          s2 = (if take 1 s1 = ''-'' \<or> take 1 s1 = ''+'' then drop 1 s1 else s1);
          hex = (take 2 s2 = ''0x'' \<or> take 2 s2 = ''0X'');
          radix = (if hex then 16 else 10);
          s3 = (if hex then drop 2 s2 else s2);
          z = takeWhile (radix_digit radix) s3
      in if z = [] then NaN
         else to_number ((if negative then - 1 else 1) * int (digits_value radix z)))"

definition isNaN :: "number \<Rightarrow> bool" where
  "isNaN num = (num = NaN)"

definition isInteger :: "number \<Rightarrow> bool" where
  "isInteger num = (case num of Num v \<Rightarrow> True | _ \<Rightarrow> False)"

definition validateInteger :: "string option \<Rightarrow> string \<Rightarrow> thrown + number" where
  "validateInteger v fieldName =
     (let num = parseInt (js_string v)
      in if isNaN num \<or> \<not> isInteger num
         then Inl (Error (fieldName @ '' must be a valid integer''))
         else Inr num)"

text \<open>
  \<open>validateNumber\<close> rests on the built-in \<open>parseFloat\<close>, whose values are doubles.
  The built-in is a parameter: \<open>None\<close> is NaN, \<open>Some num\<close> any other number.
\<close>

definition validateNumber :: "(string \<Rightarrow> 'n option) \<Rightarrow> string option \<Rightarrow> string \<Rightarrow> thrown + 'n" where
  "validateNumber parseFloat v fieldName =
     (case parseFloat (js_string v) of
        None \<Rightarrow> Inl (Error (fieldName @ '' must be a valid number''))
      | Some num \<Rightarrow> Inr num)"

section \<open>The products page: bulk import\<close>

record InsertProduct =
  stockCode :: string
  name :: string
  category :: string
  buyingPrice :: string
  sellingPrice :: string
  quantity :: number
  supplierId :: "string option"

definition product_columns :: "string column list" where
  "product_columns =
     [\<lparr>csvHeader = ''Stock Code'', field = ''stockCode''\<rparr>,
      \<lparr>csvHeader = ''Product Name'', field = ''name''\<rparr>,
      \<lparr>csvHeader = ''Category'', field = ''category''\<rparr>,
      \<lparr>csvHeader = ''Buying Price'', field = ''buyingPrice''\<rparr>,
      \<lparr>csvHeader = ''Selling Price'', field = ''sellingPrice''\<rparr>,
      \<lparr>csvHeader = ''Quantity'', field = ''quantity''\<rparr>,
      \<lparr>csvHeader = ''Supplier ID'', field = ''supplierId''\<rparr>]"

text \<open>
  The row transform of the page.  The fields of the object literal are evaluated in
  order and the first validator that throws ends the evaluation.  \<open>toString\<close> is
  \<open>Number.prototype.toString\<close>, a parameter like \<open>parseFloat\<close>.
\<close>

definition product_transform ::
  "(string \<Rightarrow> 'n option) \<Rightarrow> ('n \<Rightarrow> string) \<Rightarrow> row \<Rightarrow> thrown + InsertProduct" where
  "product_transform parseFloat toString r =
     (case validateRequired (r ''Stock Code'') ''Stock Code'' of Inl e \<Rightarrow> Inl e | Inr sc \<Rightarrow>
      case validateRequired (r ''Product Name'') ''Product Name'' of Inl e \<Rightarrow> Inl e | Inr nm \<Rightarrow>
      case validateRequired (r ''Category'') ''Category'' of Inl e \<Rightarrow> Inl e | Inr cat \<Rightarrow>
      case validateNumber parseFloat (r ''Buying Price'') ''Buying Price'' of Inl e \<Rightarrow> Inl e | Inr bp \<Rightarrow>
      case validateNumber parseFloat (r ''Selling Price'') ''Selling Price'' of Inl e \<Rightarrow> Inl e | Inr sp \<Rightarrow>
      case validateInteger (r ''Quantity'') ''Quantity'' of Inl e \<Rightarrow> Inl e | Inr q \<Rightarrow>
        Inr \<lparr>stockCode = sc, name = nm, category = cat,
             buyingPrice = toString bp, sellingPrice = toString sp, quantity = q,
             supplierId = (case r ''Supplier ID'' of
                             None \<Rightarrow> None
                           | Some s \<Rightarrow> (if trim s = [] then None else Some (trim s)))\<rparr>)"

text \<open>\<open>Array.prototype.join\<close>.\<close>

fun join :: "string \<Rightarrow> string list \<Rightarrow> string" where
  "join sep [] = []"
| "join sep [x] = x"
| "join sep (x # y # ys) = x @ sep @ join sep (y # ys)"


datatype variant = Plain | Destructive

record toast =
  title :: string
  description :: string
  variant :: variant

text \<open>
  The loop \<open>for (const product of result.data)\<close>.  \<open>apiRequest("POST", "/api/products",
  product)\<close> is a function of the server's state that says whether the request
  succeeded (\<open>True\<close>) or threw; \<open>posted\<close> collects the requests in the order issued.
\<close>

fun import_loop ::
  "('s \<Rightarrow> InsertProduct \<Rightarrow> bool \<times> 's) \<Rightarrow> InsertProduct list \<Rightarrow> nat \<Rightarrow> nat \<Rightarrow> InsertProduct list \<Rightarrow> 's
     \<Rightarrow> nat \<times> nat \<times> InsertProduct list \<times> 's" where
  "import_loop apiRequest [] successCount failCount posted s = (successCount, failCount, posted, s)"
| "import_loop apiRequest (product # rest) successCount failCount posted s =
     (case apiRequest s product of
        (True, s') \<Rightarrow> import_loop apiRequest rest (successCount + 1) failCount (posted @ [product]) s'
      | (False, s') \<Rightarrow> import_loop apiRequest rest successCount (failCount + 1) (posted @ [product]) s')"

text \<open>
  What the sequence of awaited requests amounts to: the outcomes of posting the
  records one after the other, each to the server as the request before left it, and
  the server after the last.  The properties of the loop are stated against it.
\<close>

fun create_calls :: "('s \<Rightarrow> InsertProduct \<Rightarrow> bool \<times> 's) \<Rightarrow> 's \<Rightarrow> InsertProduct list \<Rightarrow> bool list \<times> 's" where
  "create_calls apiRequest s [] = ([], s)"
| "create_calls apiRequest s (product # rest) =
     (fst (apiRequest s product) # fst (create_calls apiRequest (snd (apiRequest s product)) rest),
      snd (create_calls apiRequest (snd (apiRequest s product)) rest))"

record 's import_outcome =
  requests :: "InsertProduct list"
  toasts :: "toast list"
  server :: 's

text \<open>
  \<open>handleFileChange\<close>: the chosen file (\<open>None\<close> when the event carries none), the
  requests it issues and the toasts it shows.  The flags \<open>isImporting\<close> and the reset
  of the file input are left out.  The outer \<open>catch\<close> is never entered: \<open>parseCSV\<close>
  only resolves, and a failing request is caught inside the loop.
\<close>

definition handleFileChange ::
  "(string \<Rightarrow> 'n option) \<Rightarrow> ('n \<Rightarrow> string) \<Rightarrow> ('s \<Rightarrow> InsertProduct \<Rightarrow> bool \<times> 's) \<Rightarrow> 's
     \<Rightarrow> file_read option \<Rightarrow> 's import_outcome" where
  "handleFileChange parseFloat toString apiRequest s file =
     (case file of
        None \<Rightarrow> \<lparr>requests = [], toasts = [], server = s\<rparr>
      | Some f \<Rightarrow>
          let result = parseCSV f product_columns (product_transform parseFloat toString)
          in if length (errors result) > 0
             then \<lparr>requests = [],
                   toasts = [\<lparr>title = ''Import errors'',
                               description = join '', '' (take 3 (errors result)),
                               variant = Destructive\<rparr>],
                   server = s\<rparr>
             else
               let (successCount, failCount, posted, s') = import_loop apiRequest (data result) 0 0 [] s
               in \<lparr>requests = posted,
                   toasts = [\<lparr>title = ''Import complete'',
                               description = decimal successCount @ '' products imported successfully''
                                 @ (if failCount > 0 then '', '' @ decimal failCount @ '' failed'' else []),
                               variant = Plain\<rparr>],
                   server = s'\<rparr>)"

section \<open>The insert schemas of the shared schema file\<close>

text \<open>
  A request body as the validator sees it.  A schema is a predicate on what is found
  under a key: \<open>None\<close> when the key is absent (\<open>undefined\<close>).  A repeated key of
  a parsed object keeps its last value.
\<close>

datatype json =
    JNull
  | JBool bool
  | JNumber rat
  | JString string
  | JArray "json list"
  | JObject "(string \<times> json) list"

type_synonym schema = "json option \<Rightarrow> bool"

definition z_string :: schema where
  "z_string v = (case v of Some (JString s) \<Rightarrow> True | _ \<Rightarrow> False)"

definition z_number :: schema where
  "z_number v = (case v of Some (JNumber q) \<Rightarrow> True | _ \<Rightarrow> False)"

definition z_optional :: "schema \<Rightarrow> schema" where
  "z_optional sch v = (case v of None \<Rightarrow> True | Some x \<Rightarrow> sch v)"

text \<open>\<open>z.array(element)\<close> with no length constraint.\<close>

definition z_array :: "schema \<Rightarrow> schema" where
  "z_array element v =
     (case v of Some (JArray xs) \<Rightarrow> list_all (\<lambda>x. element (Some x)) xs | _ \<Rightarrow> False)"

text \<open>\<open>z.object(shape)\<close>: every key of the shape is checked; other keys are stripped.\<close>

definition z_object :: "(string \<times> schema) list \<Rightarrow> schema" where
  "z_object shape v =
     (case v of
        Some (JObject members) \<Rightarrow> list_all (\<lambda>(key, sch). sch (map_of (rev members) key)) shape
      | _ \<Rightarrow> False)"

text \<open>
  \<open>createInsertSchema(saleItems).omit({id, saleId}).extend({unitPrice, buyingPrice,
  subtotal: z.string()})\<close>.  The text columns are required strings.  The schema that
  drizzle-zod derives for the integer column \<open>quantity\<close> belongs to that library and
  is the parameter \<open>integer_column\<close>.
\<close>

definition insertSaleItemSchema :: "schema \<Rightarrow> schema" where
  "insertSaleItemSchema integer_column =
     z_object
       [(''productId'', z_string),
        (''productName'', z_string),
        (''stockCode'', z_string),
        (''quantity'', integer_column),
        (''unitPrice'', z_string),
        (''buyingPrice'', z_string),
        (''subtotal'', z_string)]"

text \<open>
  \<open>createInsertSchema(sales).omit({id, createdAt, receiptNumber}).extend({subtotal,
  discount, total: z.string(), items: z.array(insertSaleItemSchema)})\<close>.  The column
  \<open>discountType\<close> has a default and is optional on insert.
\<close>

definition insertSaleSchema :: "schema \<Rightarrow> schema" where
  "insertSaleSchema integer_column =
     z_object
       [(''customerId'', z_string),
        (''sellerId'', z_string),
        (''subtotal'', z_string),
        (''discount'', z_string),
        (''discountType'', z_optional z_string),
        (''total'', z_string),
        (''paymentMethod'', z_string),
        (''items'', z_array (insertSaleItemSchema integer_column))]"

section \<open>The sale transaction writer\<close>

text \<open>
  Modelled from the spec: \<open>recordSale\<close> and the rows it reads and writes (sections 3
  and 4.4).  The server's sale writer is not among the sources; only the table and
  schema declarations are.
\<close>

record Product =
  product_stockCode :: string
  product_name :: string
  product_buyingPrice :: rat
  product_sellingPrice :: rat
  product_quantity :: int

datatype discount_type = Percentage | Fixed

record sale_line =
  line_productId :: string
  line_quantity :: int
  unitPriceOverride :: "rat option"

record sale_request =
  req_customerId :: string
  req_sellerId :: string
  req_items :: "sale_line list"
  req_discount :: rat
  req_discountType :: discount_type
  req_paymentMethod :: string

record Sale =
  sale_receiptNumber :: string
  sale_customerId :: string
  sale_sellerId :: string
  sale_subtotal :: rat
  sale_discount :: rat
  sale_discountType :: discount_type
  sale_total :: rat
  sale_paymentMethod :: string

record SaleItem =
  item_receiptNumber :: string
  item_productId :: string
  item_productName :: string
  item_stockCode :: string
  item_quantity :: int
  item_unitPrice :: rat
  item_buyingPrice :: rat
  item_subtotal :: rat

record store =
  products :: "string \<rightharpoonup> Product"
  sales :: "Sale list"
  saleItems :: "SaleItem list"

datatype sale_error =
    EmptyCartError
  | ProductNotFoundError string
  | InsufficientStockError "string list"

text \<open>
  Modelled from the spec: "For each item, resolves the current Product by id; fails
  with ProductNotFoundError if missing."
\<close>

fun resolve_lines :: "(string \<rightharpoonup> Product) \<Rightarrow> sale_line list \<Rightarrow> sale_error + (sale_line \<times> Product) list" where
  "resolve_lines ps [] = Inr []"
| "resolve_lines ps (l # ls) =
     (case ps (line_productId l) of
        None \<Rightarrow> Inl (ProductNotFoundError (line_productId l))
      | Some p \<Rightarrow> (case resolve_lines ps ls of Inl e \<Rightarrow> Inl e | Inr rs \<Rightarrow> Inr ((l, p) # rs)))"

text \<open>
  Modelled from the spec: the unit price is the override if supplied, else the
  product's current selling price; the line subtotal is unit price times quantity.
\<close>

definition line_unitPrice :: "sale_line \<times> Product \<Rightarrow> rat" where
  "line_unitPrice lp = (case unitPriceOverride (fst lp) of None \<Rightarrow> product_sellingPrice (snd lp) | Some u \<Rightarrow> u)"

definition line_subtotal :: "sale_line \<times> Product \<Rightarrow> rat" where
  "line_subtotal lp = line_unitPrice lp * of_int (line_quantity (fst lp))"

text \<open>
  Modelled from the spec: a line fails the stock check when
  \<open>product.quantity - line.quantity >= 0\<close> does not hold; the error names the stock
  codes of the failing lines.
\<close>

definition line_short :: "sale_line \<times> Product \<Rightarrow> bool" where
  "line_short lp = (\<not> (product_quantity (snd lp) - line_quantity (fst lp) \<ge> 0))"

definition offending_codes :: "(sale_line \<times> Product) list \<Rightarrow> string list" where
  "offending_codes rs = map (\<lambda>lp. product_stockCode (snd lp)) (filter line_short rs)"

text \<open>
  Modelled from the spec: the total is subtotal minus discount for a fixed discount,
  subtotal minus subtotal times discount over 100 for a percentage, floored at zero.
\<close>

definition sale_total_of :: "rat \<Rightarrow> rat \<Rightarrow> discount_type \<Rightarrow> rat" where
  "sale_total_of subtotal disc dt =
     max 0 (case dt of Fixed \<Rightarrow> subtotal - disc | Percentage \<Rightarrow> subtotal - subtotal * disc / 100)"

definition decrement_stock :: "sale_line \<times> Product \<Rightarrow> (string \<rightharpoonup> Product) \<Rightarrow> (string \<rightharpoonup> Product)" where
  "decrement_stock lp ps =
     (case ps (line_productId (fst lp)) of
        None \<Rightarrow> ps
      | Some p \<Rightarrow> ps(line_productId (fst lp) \<mapsto> p\<lparr>product_quantity := product_quantity p - line_quantity (fst lp)\<rparr>))"

definition sale_item_of :: "string \<Rightarrow> sale_line \<times> Product \<Rightarrow> SaleItem" where
  "sale_item_of receipt lp =
     \<lparr>item_receiptNumber = receipt,
      item_productId = line_productId (fst lp),
      item_productName = product_name (snd lp),
      item_stockCode = product_stockCode (snd lp),
      item_quantity = line_quantity (fst lp),
      item_unitPrice = line_unitPrice lp,
      item_buyingPrice = product_buyingPrice (snd lp),
      item_subtotal = line_subtotal lp\<rparr>"

text \<open>
  Modelled from the spec: \<open>recordSale\<close> (section 4.4).  The result is the sale or the
  failure, together with the store afterwards; a failure leaves the store as it was.
  The receipt number generator is a parameter.
\<close>

definition recordSale :: "(store \<Rightarrow> string) \<Rightarrow> sale_request \<Rightarrow> store \<Rightarrow> (sale_error + Sale) \<times> store" where
  "recordSale receipt_of req st =
     (if req_items req = [] then (Inl EmptyCartError, st)
      else case resolve_lines (products st) (req_items req) of
        Inl e \<Rightarrow> (Inl e, st)
      | Inr rs \<Rightarrow>
          if offending_codes rs \<noteq> [] then (Inl (InsufficientStockError (offending_codes rs)), st)
          else
            let subtotal = sum_list (map line_subtotal rs);
                receipt = receipt_of st;
                sale = \<lparr>sale_receiptNumber = receipt,
                        sale_customerId = req_customerId req,
                        sale_sellerId = req_sellerId req,
                        sale_subtotal = subtotal,
                        sale_discount = req_discount req,
                        sale_discountType = req_discountType req,
                        sale_total = sale_total_of subtotal (req_discount req) (req_discountType req),
                        sale_paymentMethod = req_paymentMethod req\<rparr>
            in (Inr sale,
                \<lparr>products = fold decrement_stock rs (products st),
                 sales = sales st @ [sale],
                 saleItems = saleItems st @ map (sale_item_of receipt) rs\<rparr>))"

section \<open>Properties of the tokenizer\<close>





section \<open>Properties of the parser\<close>

lemma findIndex_None: "findIndex p xs = None \<longleftrightarrow> (\<forall>x\<in>set xs. \<not> p x)"
  by (induction xs) auto

lemma header_missing_iff:
  "header_missing headers col \<longleftrightarrow> (\<forall>h\<in>set headers. \<not> header_matches (csvHeader col) h)"
  by (simp add: header_missing_def findIndex_None)

lemma resolve_fold_errors:
  "snd (fold (resolve_column headers) columnMapping st)
     = snd st @ map (\<lambda>col. missing_column (csvHeader col)) (filter (header_missing headers) columnMapping)"
proof (induction columnMapping arbitrary: st)
  case Nil
  show ?case by simp
next
  case (Cons col cols)
  show ?case
  proof (cases "findIndex (header_matches (csvHeader col)) headers")
    case None
    then have "header_missing headers col"
      by (simp add: header_missing_def)
    moreover have "resolve_column headers col st = (fst st, snd st @ [missing_column (csvHeader col)])"
      using None by (simp add: resolve_column_def)
    ultimately show ?thesis
      by (simp add: Cons.IH)
  next
    case (Some index)
    then have "\<not> header_missing headers col"
      by (simp add: header_missing_def)
    moreover have "resolve_column headers col st = ((fst st)(field col \<mapsto> index), snd st)"
      using Some by (simp add: resolve_column_def)
    ultimately show ?thesis
      by (simp add: Cons.IH)
  qed
qed

lemma resolve_columns_errors:
  "snd (resolve_columns headers columnMapping)
     = map (\<lambda>col. missing_column (csvHeader col)) (filter (header_missing headers) columnMapping)"
  by (simp add: resolve_columns_def resolve_fold_errors)

lemma resolve_columns_ok:
  "snd (resolve_columns headers columnMapping) = [] \<longleftrightarrow> (\<forall>col\<in>set columnMapping. \<not> header_missing headers col)"
  by (simp add: resolve_columns_errors filter_empty_conv)

lemma rows_loop_eq:
  "\<forall>l\<in>set ls. trim l \<noteq> [] \<Longrightarrow>
   rows_loop m ci tr i ls recs errs =
     (recs @ concat (map (\<lambda>l. case tr (row_of m ci l) of Inr t \<Rightarrow> [t] | Inl e \<Rightarrow> []) ls),
      errs @ concat (map (\<lambda>(k, l). case tr (row_of m ci l) of Inr t \<Rightarrow> [] | Inl e \<Rightarrow> [row_error k e])
                      (enumerate i ls)))"
proof (induction ls arbitrary: i recs errs)
  case Nil
  show ?case by simp
next
  case (Cons l ls)
  then have l: "trim l \<noteq> []" and ls: "\<forall>l\<in>set ls. trim l \<noteq> []" by simp_all
  show ?case
  proof (cases "tr (row_of m ci l)")
    case (Inl e)
    with l show ?thesis
      by (simp add: Cons.IH [OF ls] row_of_def Let_def)
  next
    case (Inr t)
    with l show ?thesis
      by (simp add: Cons.IH [OF ls] row_of_def Let_def)
  qed
qed

lemma nonblank_lines_trim: "l \<in> set (nonblank_lines txt) \<Longrightarrow> trim l \<noteq> []"
  by (simp add: nonblank_lines_def)

lemma parseCSV_header_failure:
  assumes "nonblank_lines txt = headerLine # dataLines"
    and "\<exists>col\<in>set columnMapping. header_missing (parseCSVLine headerLine) col"
  shows "parseCSV (Loaded txt) columnMapping transform =
     \<lparr>data = [], errors = map (\<lambda>col. missing_column (csvHeader col))
                            (filter (header_missing (parseCSVLine headerLine)) columnMapping)\<rparr>"
proof -
  let ?r = "resolve_columns (parseCSVLine headerLine) columnMapping"
  obtain columnIndices errs where r: "?r = (columnIndices, errs)"
    by (cases ?r)
  have ne: "errs \<noteq> []"
    using assms(2) resolve_columns_ok [of "parseCSVLine headerLine" columnMapping] r by auto
  have errs: "errs = map (\<lambda>col. missing_column (csvHeader col))
                        (filter (header_missing (parseCSVLine headerLine)) columnMapping)"
    using resolve_columns_errors [of "parseCSVLine headerLine" columnMapping] r by simp
  have "parseCSV (Loaded txt) columnMapping transform = \<lparr>data = [], errors = errs\<rparr>"
    using assms(1) ne by (simp add: parseCSV_def parseCSV_text_def r)
  then show ?thesis
    by (simp only: errs)
qed

lemma parseCSV_rows:
  assumes "nonblank_lines txt = headerLine # dataLines"
    and "\<forall>col\<in>set columnMapping. \<not> header_missing (parseCSVLine headerLine) col"
    and "columnIndices = fst (resolve_columns (parseCSVLine headerLine) columnMapping)"
  shows "parseCSV (Loaded txt) columnMapping transform =
     \<lparr>data = concat (map (\<lambda>l. case transform (row_of columnMapping columnIndices l) of
                                Inr t \<Rightarrow> [t] | Inl e \<Rightarrow> []) dataLines),
      errors = concat (map (\<lambda>(k, l). case transform (row_of columnMapping columnIndices l) of
                                Inr t \<Rightarrow> [] | Inl e \<Rightarrow> [row_error k e]) (enumerate 1 dataLines))\<rparr>"
proof -
  let ?r = "resolve_columns (parseCSVLine headerLine) columnMapping"
  have ok: "snd ?r = []"
    using assms(2) by (simp add: resolve_columns_ok)
  have nb: "\<forall>l\<in>set dataLines. trim l \<noteq> []"
    using assms(1) nonblank_lines_trim [of _ "txt"] by simp
  have r: "?r = (columnIndices, [])"
    using ok assms(3) by (simp add: prod_eq_iff)
  show ?thesis
    using assms(1) by (simp add: parseCSV_def parseCSV_text_def r rows_loop_eq [OF nb])
qed


lemma errors_count:
  "length (concat (map (\<lambda>(k, l). case tr (R l) of Inr t \<Rightarrow> [] | Inl e \<Rightarrow> [E k e]) (enumerate i ls)))
   = length (filter (\<lambda>l. isl (tr (R l))) ls)"
  by (induction ls arbitrary: i) (auto split: sum.splits)

lemma fold_project_other:
  "h \<notin> csvHeader ` set cols \<Longrightarrow> fold (project_column ci vs) cols rd h = rd h"
proof (induction cols arbitrary: rd)
  case Nil
  show ?case by simp
next
  case (Cons c cols)
  then have h: "h \<noteq> csvHeader c" and rest: "h \<notin> csvHeader ` set cols" by auto
  have "project_column ci vs c rd h = rd h"
    using h by (simp add: project_column_def assign_property_def split: option.splits)
  then show ?case using Cons.IH [OF rest] by simp
qed

lemma project_row_last:
  assumes "ci (field col) = Some index" and "csvHeader col \<notin> csvHeader ` set after"
    and "csvHeader col \<noteq> ''__proto__''"
  shows "project_row ci vs (before @ col # after) (csvHeader col) = Some (or_empty (js_index vs index))"
proof -
  have "project_row ci vs (before @ col # after) (csvHeader col)
      = project_column ci vs col (fold (project_column ci vs) before Map.empty) (csvHeader col)"
    by (simp add: project_row_def fold_project_other [OF assms(2)])
  also have "\<dots> = Some (or_empty (js_index vs index))"
    using assms(1) assms(3) by (simp add: project_column_def assign_property_def)
  finally show ?thesis .
qed

lemma enumerate_shift:
  "map (\<lambda>(k, l). F k l) (enumerate (Suc i) ls) = map (\<lambda>(k, l). F (Suc k) l) (enumerate i ls)"
  by (induction ls arbitrary: i) simp_all

text \<open>
  Claim C1.  When the header row lacks at least one declared header (compared in
  lower case and trimmed), \<open>parseCSV\<close> returns no record and exactly one error for
  each mapping entry whose header is missing, naming that header, in the order of the
  mapping.  The result is fixed by the header line and the mapping alone: neither
  the data lines nor the transform enter it, so no data row is parsed.
\<close>

theorem missing_header_fails_whole_parse:
  assumes "nonblank_lines txt = headerLine # dataLines"
    and "\<exists>col\<in>set columnMapping.
           \<forall>h\<in>set (parseCSVLine headerLine). trim (toLowerCase h) \<noteq> trim (toLowerCase (csvHeader col))"
  shows "parseCSV (Loaded txt) columnMapping transform =
     \<lparr>data = [],
      errors = map (\<lambda>col. ''Required column '' @ [CHR 0x22] @ csvHeader col @ [CHR 0x22] @ '' not found in CSV'')
                 (filter (\<lambda>col. \<forall>h\<in>set (parseCSVLine headerLine).
                                   trim (toLowerCase h) \<noteq> trim (toLowerCase (csvHeader col)))
                    columnMapping)\<rparr>"
proof -
  have missing: "header_missing (parseCSVLine headerLine) =
      (\<lambda>col. \<forall>h\<in>set (parseCSVLine headerLine). trim (toLowerCase h) \<noteq> trim (toLowerCase (csvHeader col)))"
    by (rule ext) (simp add: header_missing_iff header_matches_def)
  have "\<exists>col\<in>set columnMapping. header_missing (parseCSVLine headerLine) col"
    using assms(2) by (simp add: missing)
  from parseCSV_header_failure [OF assms(1) this, of transform]
  show ?thesis
    by (simp add: missing missing_column_def)
qed

theorem missing_header_fails_whole_parse_witness:
  \<open>nonblank_lines (''a,b'' @ [CHR 0x0A] @ ''1,2'') = ''a,b'' # [''1,2'']
   \<and> (\<exists>col\<in>set [\<lparr>csvHeader = ''A'', field = 0::nat\<rparr>, \<lparr>csvHeader = ''c'', field = 1\<rparr>].
         \<forall>h\<in>set (parseCSVLine ''a,b''). trim (toLowerCase h) \<noteq> trim (toLowerCase (csvHeader col)))
   \<and> parseCSV (Loaded (''a,b'' @ [CHR 0x0A] @ ''1,2''))
        [\<lparr>csvHeader = ''A'', field = 0::nat\<rparr>, \<lparr>csvHeader = ''c'', field = 1\<rparr>]
        (\<lambda>r. Inr r :: thrown + row)
      = \<lparr>data = [], errors = [''Required column "c" not found in CSV'']\<rparr>\<close>
proof -
  let ?txt = "''a,b'' @ [CHR 0x0A] @ ''1,2''"
  let ?m = "[\<lparr>csvHeader = ''A'', field = 0::nat\<rparr>, \<lparr>csvHeader = ''c'', field = 1\<rparr>]"
  let ?miss = "\<lambda>col::nat column. \<forall>h\<in>set (parseCSVLine ''a,b''). trim (toLowerCase h) \<noteq> trim (toLowerCase (csvHeader col))"
  have h1: "nonblank_lines ?txt = ''a,b'' # [''1,2'']"
    by code_simp
  have h2: "\<exists>col\<in>set ?m. ?miss col"
    by code_simp
  have e: \<open>map (\<lambda>col. ''Required column '' @ [CHR 0x22] @ csvHeader col @ [CHR 0x22] @ '' not found in CSV'')
             (filter ?miss ?m) = [''Required column "c" not found in CSV'']\<close>
    by code_simp
  from missing_header_fails_whole_parse [OF h1 h2, of "\<lambda>r. Inr r :: thrown + row"] h1 h2
  show ?thesis
    by (simp only: e simp_thms)
qed

text \<open>
  Claim C3, as stated, at a text with a blank line before the failing row: the row
  \<open>x\<close> is the third line of the text, and its error says row 2.
\<close>

theorem row_number_is_not_text_line_counterexample:
  \<open>split_lines (''A'' @ [CHR 0x0A, CHR 0x0A] @ ''x'') ! 2 = ''x''
   \<and> errors (parseCSV (Loaded (''A'' @ [CHR 0x0A, CHR 0x0A] @ ''x''))
               [\<lparr>csvHeader = ''A'', field = ()\<rparr>] (\<lambda>r. Inl (Error ''bad'') :: thrown + unit))
       = [''Error on row 2: bad'']
   \<and> errors (parseCSV (Loaded (''A'' @ [CHR 0x0A, CHR 0x0A] @ ''x''))
               [\<lparr>csvHeader = ''A'', field = ()\<rparr>] (\<lambda>r. Inl (Error ''bad'') :: thrown + unit))
       \<noteq> [''Error on row 3: bad'']\<close>
  by code_simp

text \<open>
  Claim C3, amended.  When every declared header is found, each data row whose
  transform fails contributes the string \<open>Error on row N: message\<close>, where \<open>N\<close> is
  the 1-based position of the row among the non-blank lines of the text (the header
  line is 1), and each other row contributes its record; no row stops the loop, and
  records and errors are in row order.  The message is the message of a thrown
  \<open>Error\<close> and \<open>Invalid data\<close> for any other thrown value.
\<close>

theorem row_errors_numbered_among_nonblank_lines:
  assumes "nonblank_lines txt = headerLine # dataLines"
    and "\<forall>col\<in>set columnMapping.
           \<exists>h\<in>set (parseCSVLine headerLine). trim (toLowerCase h) = trim (toLowerCase (csvHeader col))"
  shows "data (parseCSV (Loaded txt) columnMapping transform) =
           concat (map (\<lambda>l. case transform (row_of columnMapping
                                      (fst (resolve_columns (parseCSVLine headerLine) columnMapping)) l) of
                               Inr t \<Rightarrow> [t] | Inl e \<Rightarrow> []) dataLines)
       \<and> errors (parseCSV (Loaded txt) columnMapping transform) =
           concat (map (\<lambda>(k, l). case transform (row_of columnMapping
                                      (fst (resolve_columns (parseCSVLine headerLine) columnMapping)) l) of
                               Inr t \<Rightarrow> []
                             | Inl e \<Rightarrow> [''Error on row '' @ decimal (k + 2) @ '': ''
                                          @ (case e of Error m \<Rightarrow> m | NonError \<Rightarrow> ''Invalid data'')])
                     (enumerate 0 dataLines))"
proof -
  have ok: "\<forall>col\<in>set columnMapping. \<not> header_missing (parseCSVLine headerLine) col"
    using assms(2) by (auto simp: header_missing_iff header_matches_def)
  have "errors (parseCSV (Loaded txt) columnMapping transform) =
      concat (map (\<lambda>(k, l). case transform (row_of columnMapping
                                  (fst (resolve_columns (parseCSVLine headerLine) columnMapping)) l) of
                               Inr t \<Rightarrow> [] | Inl e \<Rightarrow> [row_error k e]) (enumerate 1 dataLines))"
    by (simp add: parseCSV_rows [OF assms(1) ok refl])
  also have "\<dots> = concat (map (\<lambda>(k, l). case transform (row_of columnMapping
                                  (fst (resolve_columns (parseCSVLine headerLine) columnMapping)) l) of
                               Inr t \<Rightarrow> [] | Inl e \<Rightarrow> [row_error (Suc k) e]) (enumerate 0 dataLines))"
    by (simp add: enumerate_shift)
  finally have e: "errors (parseCSV (Loaded txt) columnMapping transform) =
      concat (map (\<lambda>(k, l). case transform (row_of columnMapping
                                  (fst (resolve_columns (parseCSVLine headerLine) columnMapping)) l) of
                               Inr t \<Rightarrow> [] | Inl e \<Rightarrow> [row_error (Suc k) e]) (enumerate 0 dataLines))" .
  have d: "data (parseCSV (Loaded txt) columnMapping transform) =
      concat (map (\<lambda>l. case transform (row_of columnMapping
                                  (fst (resolve_columns (parseCSVLine headerLine) columnMapping)) l) of
                               Inr t \<Rightarrow> [t] | Inl e \<Rightarrow> []) dataLines)"
    by (simp add: parseCSV_rows [OF assms(1) ok refl])
  have re: "\<And>k e. row_error (Suc k) e = ''Error on row '' @ decimal (k + 2) @ '': ''
                @ (case e of Error m \<Rightarrow> m | NonError \<Rightarrow> ''Invalid data'')"
    by (simp add: row_error_def thrown_message_def)
  show ?thesis
    using d e by (simp only: re simp_thms)
qed

theorem row_errors_numbered_among_nonblank_lines_witness:
  \<open>nonblank_lines (''A'' @ [CHR 0x0A, CHR 0x0A] @ ''x'' @ [CHR 0x0D, CHR 0x0A] @ ''y'') = ''A'' # [''x'', ''y'']
   \<and> data (parseCSV (Loaded (''A'' @ [CHR 0x0A, CHR 0x0A] @ ''x'' @ [CHR 0x0D, CHR 0x0A] @ ''y''))
             [\<lparr>csvHeader = ''a '', field = ()\<rparr>]
             (\<lambda>r. if r ''a '' = Some ''x'' then Inl (Error ''bad'') else Inr (r ''a '')))
       = [Some ''y'']
   \<and> errors (parseCSV (Loaded (''A'' @ [CHR 0x0A, CHR 0x0A] @ ''x'' @ [CHR 0x0D, CHR 0x0A] @ ''y''))
             [\<lparr>csvHeader = ''a '', field = ()\<rparr>]
             (\<lambda>r. if r ''a '' = Some ''x'' then Inl (Error ''bad'') else Inr (r ''a '')))
       = [''Error on row 2: bad'']\<close>
proof -
  let ?txt = "''A'' @ [CHR 0x0A, CHR 0x0A] @ ''x'' @ [CHR 0x0D, CHR 0x0A] @ ''y''"
  let ?m = "[\<lparr>csvHeader = ''a '', field = ()\<rparr>]"
  let ?tr = "\<lambda>r::row. if r ''a '' = Some ''x'' then Inl (Error ''bad'') else Inr (r ''a '')"
  have h1: "nonblank_lines ?txt = ''A'' # [''x'', ''y'']"
    by code_simp
  have h2: "\<forall>col\<in>set ?m. \<exists>h\<in>set (parseCSVLine ''A''). trim (toLowerCase h) = trim (toLowerCase (csvHeader col))"
    by code_simp
  note c = row_errors_numbered_among_nonblank_lines [OF h1 h2, of ?tr]
  have d: "data (parseCSV (Loaded ?txt) ?m ?tr) = [Some ''y'']"
    unfolding c [THEN conjunct1] by code_simp
  have e: "errors (parseCSV (Loaded ?txt) ?m ?tr) = [''Error on row 2: bad'']"
    unfolding c [THEN conjunct2] by code_simp
  from h1 d e show ?thesis
    by (intro conjI)
qed



text \<open>
  Claim C10, as stated, at two mappings.  In the first the header \<open>B\<close> is declared
  twice and the field of its second entry is declared again under \<open>A\<close>: the column
  \<open>B\<close> of field 1 resolves to index 2, the row \<open>x\<close> has one cell, and the row record
  holds \<open>x\<close> under \<open>B\<close>, written by the second entry.  In the second the declared
  header is \<open>__proto__\<close>: it resolves to index 1, the row \<open>x\<close> has one cell, and the
  row record has no such property, the assignment being ignored.
\<close>

theorem short_row_not_always_empty_string_counterexample:
  \<open>fst (resolve_columns (parseCSVLine ''A,C,B'')
          [\<lparr>csvHeader = ''B'', field = 1::nat\<rparr>, \<lparr>csvHeader = ''B'', field = 2\<rparr>,
           \<lparr>csvHeader = ''A'', field = 2\<rparr>]) 1 = Some 2
   \<and> length (parseCSVLine (trim ''x'')) = 1
   \<and> data (parseCSV (Loaded (''A,C,B'' @ [CHR 0x0A] @ ''x''))
          [\<lparr>csvHeader = ''B'', field = 1::nat\<rparr>, \<lparr>csvHeader = ''B'', field = 2\<rparr>,
           \<lparr>csvHeader = ''A'', field = 2\<rparr>]
          (\<lambda>r. Inr (r ''B''))) = [Some ''x'']
   \<and> fst (resolve_columns (parseCSVLine ''a,__proto__'') [\<lparr>csvHeader = ''__proto__'', field = ()\<rparr>]) ()
       = Some 1
   \<and> data (parseCSV (Loaded (''a,__proto__'' @ [CHR 0x0A] @ ''x''))
          [\<lparr>csvHeader = ''__proto__'', field = ()\<rparr>]
          (\<lambda>r. Inr (r ''__proto__''))) = [None]\<close>
  by code_simp

text \<open>
  Claim C10, amended.  Let every declared header be found, and let a data row have no
  cell at the index resolved for a declared column whose header is not \<open>__proto__\<close>
  and is not declared again further down the mapping, where a later entry would
  overwrite it.  Then the row record handed to the transform holds the empty string
  under that column's header.  Reading past the end of the cells raises nothing: the
  errors of the parse are exactly one for each row on which the transform itself
  fails.
\<close>

theorem short_row_reads_empty_string:
  assumes "nonblank_lines txt = headerLine # dataLines"
    and "\<forall>col\<in>set columnMapping.
           \<exists>h\<in>set (parseCSVLine headerLine). trim (toLowerCase h) = trim (toLowerCase (csvHeader col))"
    and "l \<in> set dataLines"
    and "columnMapping = before @ col # after"
    and "csvHeader col \<notin> csvHeader ` set after"
    and "csvHeader col \<noteq> ''__proto__''"
    and "fst (resolve_columns (parseCSVLine headerLine) columnMapping) (field col) = Some index"
    and "length (parseCSVLine (trim l)) \<le> index"
  shows "row_of columnMapping (fst (resolve_columns (parseCSVLine headerLine) columnMapping)) l (csvHeader col)
           = Some []
       \<and> length (errors (parseCSV (Loaded txt) columnMapping transform))
           = length (filter (\<lambda>l. isl (transform (row_of columnMapping
                                (fst (resolve_columns (parseCSVLine headerLine) columnMapping)) l))) dataLines)"
proof -
  let ?ci = "fst (resolve_columns (parseCSVLine headerLine) columnMapping)"
  have ok: "\<forall>col\<in>set columnMapping. \<not> header_missing (parseCSVLine headerLine) col"
    using assms(2) by (auto simp: header_missing_iff header_matches_def)
  have "row_of columnMapping ?ci l (csvHeader col)
      = Some (or_empty (js_index (parseCSVLine (trim l)) index))"
    unfolding row_of_def
    using project_row_last [where ci = ?ci and col = col and index = index and after = after
        and vs = "parseCSVLine (trim l)" and before = before] assms(4-7)
    by simp
  also have "\<dots> = Some []"
    using assms(8) by (simp add: js_index_def or_empty_def)
  finally have cell: "row_of columnMapping ?ci l (csvHeader col) = Some []" .
  have count: "length (errors (parseCSV (Loaded txt) columnMapping transform))
      = length (filter (\<lambda>l. isl (transform (row_of columnMapping ?ci l))) dataLines)"
    by (simp add: parseCSV_rows [OF assms(1) ok refl] errors_count)
  from cell count show ?thesis
    by (rule conjI)
qed

theorem short_row_reads_empty_string_witness:
  \<open>nonblank_lines (''A,B'' @ [CHR 0x0A] @ ''x'') = ''A,B'' # [''x'']
   \<and> ''x'' \<in> set [''x'']
   \<and> csvHeader \<lparr>csvHeader = ''B'', field = 1::nat\<rparr> \<notin> csvHeader ` set ([] :: nat column list)
   \<and> csvHeader \<lparr>csvHeader = ''B'', field = 1::nat\<rparr> \<noteq> ''__proto__''
   \<and> fst (resolve_columns (parseCSVLine ''A,B'')
             [\<lparr>csvHeader = ''A'', field = 0::nat\<rparr>, \<lparr>csvHeader = ''B'', field = 1\<rparr>]) 1 = Some 1
   \<and> length (parseCSVLine (trim ''x'')) \<le> 1
   \<and> row_of [\<lparr>csvHeader = ''A'', field = 0::nat\<rparr>, \<lparr>csvHeader = ''B'', field = 1\<rparr>]
         (fst (resolve_columns (parseCSVLine ''A,B'')
                [\<lparr>csvHeader = ''A'', field = 0::nat\<rparr>, \<lparr>csvHeader = ''B'', field = 1\<rparr>]))
         ''x'' ''B'' = Some []
   \<and> length (errors (parseCSV (Loaded (''A,B'' @ [CHR 0x0A] @ ''x''))
                  [\<lparr>csvHeader = ''A'', field = 0::nat\<rparr>, \<lparr>csvHeader = ''B'', field = 1\<rparr>]
                  (\<lambda>r. Inr r :: thrown + row))) = 0\<close>
proof -
  let ?txt = "''A,B'' @ [CHR 0x0A] @ ''x''"
  let ?a = "\<lparr>csvHeader = ''A'', field = 0::nat\<rparr>"
  let ?b = "\<lparr>csvHeader = ''B'', field = 1::nat\<rparr>"
  have h1: "nonblank_lines ?txt = ''A,B'' # [''x'']"
    by code_simp
  have h2: "\<forall>col\<in>set [?a, ?b]. \<exists>h\<in>set (parseCSVLine ''A,B''). trim (toLowerCase h) = trim (toLowerCase (csvHeader col))"
    by code_simp
  have h3: "''x'' \<in> set [''x'']"
    by simp
  have h4: "[?a, ?b] = [?a] @ ?b # []"
    by simp
  have h5: "csvHeader ?b \<notin> csvHeader ` set ([] :: nat column list)"
    by simp
  have h6: "csvHeader ?b \<noteq> ''__proto__''"
    by simp
  have h7: "fst (resolve_columns (parseCSVLine ''A,B'') [?a, ?b]) (field ?b) = Some 1"
    by code_simp
  have h8: "length (parseCSVLine (trim ''x'')) \<le> 1"
    by code_simp
  from short_row_reads_empty_string [OF h1 h2 h3 h4 h5 h6 h7 h8, of "\<lambda>r. Inr r :: thrown + row"]
    h1 h3 h5 h6 h7 h8
  show ?thesis
    by simp
qed

section \<open>Properties of the validators and of the bulk import\<close>

text \<open>
  Claim C4, on the code.  \<open>validateInteger\<close> reads its argument with \<open>parseInt\<close>,
  which stops at the first character that is not a digit: for the fractional input
  \<open>3.7\<close> it returns the number 3 and raises nothing, and so it does for every input
  that continues \<open>3.\<close>, under every field name.  The message \<open>must be a valid
  integer\<close> is raised when no digit can be read at all, as for \<open>abc\<close>.
\<close>

theorem validateInteger_accepts_fraction:
  "validateInteger (Some ''3.7'') ''Quantity'' = Inr (Num 3)
   \<and> validateInteger (Some (''3.'' @ rest)) fieldName = Inr (Num 3)
   \<and> validateInteger (Some ''abc'') ''Quantity'' = Inl (Error ''Quantity must be a valid integer'')"
proof -
  have three: "to_number 3 = Num 3"
    by (simp add: to_number_def)
  have "\<And>rest. parseInt (''3.'' @ rest) = Num 3"
    by (simp add: parseInt_def is_space_def radix_digit_def digit_value_def digits_value_def three)
  then have general: "\<And>rest fieldName. validateInteger (Some (''3.'' @ rest)) fieldName = Inr (Num 3)"
    by (simp add: validateInteger_def js_string_def isNaN_def isInteger_def)
  have letters: "validateInteger (Some ''abc'') ''Quantity'' = Inl (Error ''Quantity must be a valid integer'')"
    by code_simp
  from general [of "''7''" "''Quantity''"] general [of rest fieldName] letters show ?thesis
    by simp
qed

lemma import_loop_eq:
  "import_loop apiRequest ds successCount failCount posted s =
     (successCount + length (filter (\<lambda>ok. ok) (fst (create_calls apiRequest s ds))),
      failCount + length (filter (\<lambda>ok. \<not> ok) (fst (create_calls apiRequest s ds))),
      posted @ ds,
      snd (create_calls apiRequest s ds))"
proof (induction ds arbitrary: successCount failCount posted s)
  case Nil
  show ?case by simp
next
  case (Cons d ds)
  obtain ok s1 where r: "apiRequest s d = (ok, s1)"
    by (cases "apiRequest s d")
  show ?case
  proof (cases ok)
    case True
    with r show ?thesis by (simp add: Cons.IH)
  next
    case False
    with r show ?thesis by (simp add: Cons.IH)
  qed
qed

text \<open>
  Claim C5, as stated, at a file of three data rows whose second row has the price
  \<open>abc\<close>: two rows are transformed and one error is reported by the parser, and
  the page issues no create call at all.  On the prices of this file, digits or
  letters only, \<open>parseFloat\<close> agrees with \<open>parseInt\<close> and \<open>toString\<close> prints the
  decimal numeral; the parameters are set accordingly.
\<close>

theorem bulk_import_aborts_on_row_error_counterexample:
  \<open>length (data (parseCSV
       (Loaded (''Stock Code,Product Name,Category,Buying Price,Selling Price,Quantity,Supplier ID'' @ [CHR 0x0A]
                @ ''A1,Bolt,Hardware,10,12,5,'' @ [CHR 0x0A]
                @ ''A2,Nut,Hardware,abc,3,7,S1'' @ [CHR 0x0A]
                @ ''A3,Washer,Hardware,1,2,9,''))
       product_columns
       (product_transform (\<lambda>s. case parseInt s of Num v \<Rightarrow> Some v | _ \<Rightarrow> None) (\<lambda>v. decimal (nat v))))) = 2
   \<and> errors (parseCSV
       (Loaded (''Stock Code,Product Name,Category,Buying Price,Selling Price,Quantity,Supplier ID'' @ [CHR 0x0A]
                @ ''A1,Bolt,Hardware,10,12,5,'' @ [CHR 0x0A]
                @ ''A2,Nut,Hardware,abc,3,7,S1'' @ [CHR 0x0A]
                @ ''A3,Washer,Hardware,1,2,9,''))
       product_columns
       (product_transform (\<lambda>s. case parseInt s of Num v \<Rightarrow> Some v | _ \<Rightarrow> None) (\<lambda>v. decimal (nat v))))
     = [''Error on row 3: Buying Price must be a valid number'']
   \<and> requests (handleFileChange
       (\<lambda>s. case parseInt s of Num v \<Rightarrow> Some v | _ \<Rightarrow> None) (\<lambda>v. decimal (nat v))
       (\<lambda>s p. (True, s)) ()
       (Some (Loaded (''Stock Code,Product Name,Category,Buying Price,Selling Price,Quantity,Supplier ID'' @ [CHR 0x0A]
                @ ''A1,Bolt,Hardware,10,12,5,'' @ [CHR 0x0A]
                @ ''A2,Nut,Hardware,abc,3,7,S1'' @ [CHR 0x0A]
                @ ''A3,Washer,Hardware,1,2,9,'')))) = []\<close>
  by code_simp

text \<open>
  Claim C5, amended.  The page imports all or nothing.  When the parser reports any
  error, of the header stage or of a single row, the page shows the first three
  errors, issues no create call and leaves the server as it was.  When the parser
  reports none, the page issues one create call for each record, in order, each to
  the server as the call before left it; a failed call does not stop the calls after
  it, the server ends as the last call leaves it, and the toast reports the number of
  calls that succeeded and, when there is one, the number of calls that failed.
\<close>

theorem bulk_import_all_or_nothing:
  "(errors (parseCSV f product_columns (product_transform parseFloat toString)) \<noteq> [] \<longrightarrow>
      handleFileChange parseFloat toString apiRequest s (Some f) =
        \<lparr>requests = [],
         toasts = [\<lparr>title = ''Import errors'',
                    description = join '', '' (take 3 (errors (parseCSV f product_columns
                                                          (product_transform parseFloat toString)))),
                    variant = Destructive\<rparr>],
         server = s\<rparr>)
   \<and> (errors (parseCSV f product_columns (product_transform parseFloat toString)) = [] \<longrightarrow>
      handleFileChange parseFloat toString apiRequest s (Some f) =
        \<lparr>requests = data (parseCSV f product_columns (product_transform parseFloat toString)),
         toasts = [\<lparr>title = ''Import complete'',
                    description =
                      decimal (length (filter (\<lambda>ok. ok)
                        (fst (create_calls apiRequest s
                               (data (parseCSV f product_columns (product_transform parseFloat toString)))))))
                      @ '' products imported successfully''
                      @ (if length (filter (\<lambda>ok. \<not> ok)
                              (fst (create_calls apiRequest s
                                 (data (parseCSV f product_columns (product_transform parseFloat toString)))))) > 0
                         then '', '' @ decimal (length (filter (\<lambda>ok. \<not> ok)
                              (fst (create_calls apiRequest s
                                 (data (parseCSV f product_columns (product_transform parseFloat toString)))))))
                              @ '' failed''
                         else []),
                    variant = Plain\<rparr>],
         server = snd (create_calls apiRequest s
                         (data (parseCSV f product_columns (product_transform parseFloat toString))))\<rparr>)"
proof (intro conjI impI)
  assume "errors (parseCSV f product_columns (product_transform parseFloat toString)) \<noteq> []"
  then show "handleFileChange parseFloat toString apiRequest s (Some f) =
        \<lparr>requests = [],
         toasts = [\<lparr>title = ''Import errors'',
                    description = join '', '' (take 3 (errors (parseCSV f product_columns
                                                          (product_transform parseFloat toString)))),
                    variant = Destructive\<rparr>],
         server = s\<rparr>"
    by (simp add: handleFileChange_def Let_def)
next
  let ?result = "parseCSV f product_columns (product_transform parseFloat toString)"
  let ?calls = "create_calls apiRequest s (data ?result)"
  assume none: "errors ?result = []"
  have loop: "import_loop apiRequest (data ?result) 0 0 [] s =
      (length (filter (\<lambda>ok. ok) (fst ?calls)), length (filter (\<lambda>ok. \<not> ok) (fst ?calls)),
       data ?result, snd ?calls)"
    by (simp add: import_loop_eq)
  show "handleFileChange parseFloat toString apiRequest s (Some f) =
        \<lparr>requests = data ?result,
         toasts = [\<lparr>title = ''Import complete'',
                    description =
                      decimal (length (filter (\<lambda>ok. ok) (fst ?calls)))
                      @ '' products imported successfully''
                      @ (if length (filter (\<lambda>ok. \<not> ok) (fst ?calls)) > 0
                         then '', '' @ decimal (length (filter (\<lambda>ok. \<not> ok) (fst ?calls))) @ '' failed''
                         else []),
                    variant = Plain\<rparr>],
         server = snd ?calls\<rparr>"
    using none by (simp add: handleFileChange_def Let_def loop del: import_loop.simps)
qed

theorem bulk_import_all_or_nothing_witness:
  \<open>errors (parseCSV
       (Loaded (''Stock Code,Product Name,Category,Buying Price,Selling Price,Quantity,Supplier ID'' @ [CHR 0x0A]
                @ ''A2,Nut,Hardware,abc,3,7,S1''))
       product_columns
       (product_transform (\<lambda>s. case parseInt s of Num v \<Rightarrow> Some v | _ \<Rightarrow> None) (\<lambda>v. decimal (nat v)))) \<noteq> []
   \<and> handleFileChange
       (\<lambda>s. case parseInt s of Num v \<Rightarrow> Some v | _ \<Rightarrow> None) (\<lambda>v. decimal (nat v))
       (\<lambda>s p. (stockCode p \<noteq> ''A2'', Suc s)) 0
       (Some (Loaded (''Stock Code,Product Name,Category,Buying Price,Selling Price,Quantity,Supplier ID'' @ [CHR 0x0A]
                @ ''A2,Nut,Hardware,abc,3,7,S1'')))
     = \<lparr>requests = [],
        toasts = [\<lparr>title = ''Import errors'',
                   description = ''Error on row 2: Buying Price must be a valid number'',
                   variant = Destructive\<rparr>],
        server = 0\<rparr>
   \<and> errors (parseCSV
       (Loaded (''Stock Code,Product Name,Category,Buying Price,Selling Price,Quantity,Supplier ID'' @ [CHR 0x0A]
                @ ''A1,Bolt,Hardware,10,12,5,'' @ [CHR 0x0A]
                @ ''A2,Nut,Hardware,4,3,7,S1''))
       product_columns
       (product_transform (\<lambda>s. case parseInt s of Num v \<Rightarrow> Some v | _ \<Rightarrow> None) (\<lambda>v. decimal (nat v)))) = []
   \<and> handleFileChange
       (\<lambda>s. case parseInt s of Num v \<Rightarrow> Some v | _ \<Rightarrow> None) (\<lambda>v. decimal (nat v))
       (\<lambda>s p. (stockCode p \<noteq> ''A1'', Suc s)) 0
       (Some (Loaded (''Stock Code,Product Name,Category,Buying Price,Selling Price,Quantity,Supplier ID'' @ [CHR 0x0A]
                @ ''A1,Bolt,Hardware,10,12,5,'' @ [CHR 0x0A]
                @ ''A2,Nut,Hardware,4,3,7,S1'')))
     = \<lparr>requests =
          [\<lparr>stockCode = ''A1'', name = ''Bolt'', category = ''Hardware'', buyingPrice = ''10'',
            sellingPrice = ''12'', quantity = Num 5, supplierId = None\<rparr>,
           \<lparr>stockCode = ''A2'', name = ''Nut'', category = ''Hardware'', buyingPrice = ''4'',
            sellingPrice = ''3'', quantity = Num 7, supplierId = Some ''S1''\<rparr>],
        toasts = [\<lparr>title = ''Import complete'',
                   description = ''1 products imported successfully, 1 failed'',
                   variant = Plain\<rparr>],
        server = 2\<rparr>\<close>
proof -
  let ?pf = "\<lambda>s. case parseInt s of Num v \<Rightarrow> Some v | _ \<Rightarrow> None"
  let ?ts = "\<lambda>v. decimal (nat v)"
  let ?api = "\<lambda>(s::nat) (p::InsertProduct). (stockCode p \<noteq> ''A1'', Suc s)"
  let ?api2 = "\<lambda>(s::nat) (p::InsertProduct). (stockCode p \<noteq> ''A2'', Suc s)"
  let ?bad = "Loaded (''Stock Code,Product Name,Category,Buying Price,Selling Price,Quantity,Supplier ID'' @ [CHR 0x0A]
                @ ''A2,Nut,Hardware,abc,3,7,S1'')"
  let ?good = "Loaded (''Stock Code,Product Name,Category,Buying Price,Selling Price,Quantity,Supplier ID'' @ [CHR 0x0A]
                @ ''A1,Bolt,Hardware,10,12,5,'' @ [CHR 0x0A]
                @ ''A2,Nut,Hardware,4,3,7,S1'')"
  let ?recs = "[\<lparr>stockCode = ''A1'', name = ''Bolt'', category = ''Hardware'', buyingPrice = ''10'',
            sellingPrice = ''12'', quantity = Num 5, supplierId = None\<rparr>,
           \<lparr>stockCode = ''A2'', name = ''Nut'', category = ''Hardware'', buyingPrice = ''4'',
            sellingPrice = ''3'', quantity = Num 7, supplierId = Some ''S1''\<rparr>]"
  have bad_errors: "errors (parseCSV ?bad product_columns (product_transform ?pf ?ts))
      = [''Error on row 2: Buying Price must be a valid number'']"
    by code_simp
  have recs: "data (parseCSV ?good product_columns (product_transform ?pf ?ts)) = ?recs"
    by code_simp
  have good: "errors (parseCSV ?good product_columns (product_transform ?pf ?ts)) = []"
    by code_simp
  have bad: "errors (parseCSV ?bad product_columns (product_transform ?pf ?ts)) \<noteq> []"
    by (simp only: bad_errors list.distinct not_False_eq_True)
  note thm_bad = bulk_import_all_or_nothing
    [where f = ?bad and parseFloat = ?pf and toString = ?ts and apiRequest = ?api2 and s = 0,
     THEN conjunct1, THEN mp, OF bad]
  note thm_good = bulk_import_all_or_nothing
    [where f = ?good and parseFloat = ?pf and toString = ?ts and apiRequest = ?api and s = 0,
     THEN conjunct2, THEN mp, OF good]
  have r1: "handleFileChange ?pf ?ts ?api2 0 (Some ?bad)
     = \<lparr>requests = [],
        toasts = [\<lparr>title = ''Import errors'',
                   description = ''Error on row 2: Buying Price must be a valid number'',
                   variant = Destructive\<rparr>],
        server = 0\<rparr>"
    unfolding thm_bad bad_errors by code_simp
  have r2: "handleFileChange ?pf ?ts ?api 0 (Some ?good)
     = \<lparr>requests = ?recs,
        toasts = [\<lparr>title = ''Import complete'',
                   description = ''1 products imported successfully, 1 failed'',
                   variant = Plain\<rparr>],
        server = 2\<rparr>"
    unfolding thm_good recs by code_simp
  from bad r1 good r2 show ?thesis
    by (intro conjI)
qed

section \<open>Properties of the insert schemas and of the sale writer\<close>

text \<open>
  Claim C6, as stated, at a request whose \<open>items\<close> is the empty array: the
  sale-insert schema accepts it.
\<close>

theorem insert_schema_accepts_empty_items_counterexample:
  "insertSaleSchema z_number
     (Some (JObject [(''customerId'', JString ''c1''), (''sellerId'', JString ''s1''),
                     (''subtotal'', JString ''0''), (''discount'', JString ''0''),
                     (''total'', JString ''0''), (''paymentMethod'', JString ''cash''),
                     (''items'', JArray [])]))"
  by code_simp

lemma resolve_lines_length: "resolve_lines ps ls = Inr rs \<Longrightarrow> length rs = length ls"
proof (induction ls arbitrary: rs)
  case Nil
  then show ?case by simp
next
  case (Cons l ls)
  then show ?case
    by (auto split: option.splits sum.splits)
qed

lemma resolve_lines_all:
  "\<forall>l\<in>set ls. ps (line_productId l) \<noteq> None \<Longrightarrow>
   resolve_lines ps ls = Inr (map (\<lambda>l. (l, the (ps (line_productId l)))) ls)"
  by (induction ls) auto

text \<open>
  Claim C6, amended.  \<open>recordSale\<close>, as the specification describes it, fails with
  the empty-cart error on a request without items and leaves the store as it was,
  and a sale it does record comes with one sale item for each of its one or more
  lines.  The sale-insert schema itself puts no lower bound on \<open>items\<close>: it accepts
  an object exactly when the string fields are strings and \<open>items\<close> is an array,
  of any length, of acceptable sale items.
\<close>

theorem empty_cart_rejected_by_writer_not_by_schema:
  "(req_items req = [] \<longrightarrow> recordSale receipt_of req st = (Inl EmptyCartError, st))
   \<and> (recordSale receipt_of req st = (Inr sale, st') \<longrightarrow>
        req_items req \<noteq> [] \<and> sales st' = sales st @ [sale]
        \<and> length (saleItems st') = length (saleItems st) + length (req_items req))
   \<and> (insertSaleSchema integer_column (Some (JObject members)) \<longleftrightarrow>
        z_string (map_of (rev members) ''customerId'')
        \<and> z_string (map_of (rev members) ''sellerId'')
        \<and> z_string (map_of (rev members) ''subtotal'')
        \<and> z_string (map_of (rev members) ''discount'')
        \<and> z_optional z_string (map_of (rev members) ''discountType'')
        \<and> z_string (map_of (rev members) ''total'')
        \<and> z_string (map_of (rev members) ''paymentMethod'')
        \<and> (\<exists>xs. map_of (rev members) ''items'' = Some (JArray xs)
                \<and> list_all (\<lambda>x. insertSaleItemSchema integer_column (Some x)) xs))"
proof (intro conjI impI)
  assume "req_items req = []"
  then show "recordSale receipt_of req st = (Inl EmptyCartError, st)"
    by (simp add: recordSale_def)
next
  assume ok: "recordSale receipt_of req st = (Inr sale, st')"
  show "req_items req \<noteq> []"
    using ok by (auto simp: recordSale_def)
  then obtain rs where rs: "resolve_lines (products st) (req_items req) = Inr rs"
    and no: "offending_codes rs = []"
    using ok by (auto simp: recordSale_def Let_def split: sum.splits if_splits)
  have len: "length rs = length (req_items req)"
    by (rule resolve_lines_length [OF rs])
  from ok rs no \<open>req_items req \<noteq> []\<close>
  show "sales st' = sales st @ [sale]"
    by (auto simp: recordSale_def Let_def)
  from ok rs no \<open>req_items req \<noteq> []\<close> len
  show "length (saleItems st') = length (saleItems st) + length (req_items req)"
    by (auto simp: recordSale_def Let_def)
next
  show "insertSaleSchema integer_column (Some (JObject members)) \<longleftrightarrow>
        z_string (map_of (rev members) ''customerId'')
        \<and> z_string (map_of (rev members) ''sellerId'')
        \<and> z_string (map_of (rev members) ''subtotal'')
        \<and> z_string (map_of (rev members) ''discount'')
        \<and> z_optional z_string (map_of (rev members) ''discountType'')
        \<and> z_string (map_of (rev members) ''total'')
        \<and> z_string (map_of (rev members) ''paymentMethod'')
        \<and> (\<exists>xs. map_of (rev members) ''items'' = Some (JArray xs)
                \<and> list_all (\<lambda>x. insertSaleItemSchema integer_column (Some x)) xs)"
    by (simp add: insertSaleSchema_def z_object_def z_array_def split: option.splits json.splits)
qed

theorem empty_cart_rejected_by_writer_not_by_schema_witness:
  "recordSale (\<lambda>st. ''R1'')
     \<lparr>req_customerId = ''c'', req_sellerId = ''s'', req_items = [], req_discount = 0,
      req_discountType = Fixed, req_paymentMethod = ''cash''\<rparr>
     \<lparr>products = Map.empty, sales = [], saleItems = []\<rparr>
   = (Inl EmptyCartError, \<lparr>products = Map.empty, sales = [], saleItems = []\<rparr>)
   \<and> fst (recordSale (\<lambda>st. ''R1'')
        \<lparr>req_customerId = ''c'', req_sellerId = ''s'',
         req_items = [\<lparr>line_productId = ''P'', line_quantity = 2, unitPriceOverride = None\<rparr>],
         req_discount = 10, req_discountType = Percentage, req_paymentMethod = ''cash''\<rparr>
        \<lparr>products = [''P'' \<mapsto> \<lparr>product_stockCode = ''SC1'', product_name = ''Bolt'',
                                product_buyingPrice = 60, product_sellingPrice = 100,
                                product_quantity = 3\<rparr>],
         sales = [], saleItems = []\<rparr>)
     = Inr \<lparr>sale_receiptNumber = ''R1'', sale_customerId = ''c'', sale_sellerId = ''s'',
            sale_subtotal = 200, sale_discount = 10, sale_discountType = Percentage,
            sale_total = 180, sale_paymentMethod = ''cash''\<rparr>
   \<and> length (saleItems (snd (recordSale (\<lambda>st. ''R1'')
        \<lparr>req_customerId = ''c'', req_sellerId = ''s'',
         req_items = [\<lparr>line_productId = ''P'', line_quantity = 2, unitPriceOverride = None\<rparr>],
         req_discount = 10, req_discountType = Percentage, req_paymentMethod = ''cash''\<rparr>
        \<lparr>products = [''P'' \<mapsto> \<lparr>product_stockCode = ''SC1'', product_name = ''Bolt'',
                                product_buyingPrice = 60, product_sellingPrice = 100,
                                product_quantity = 3\<rparr>],
         sales = [], saleItems = []\<rparr>))) = 1"
proof -
  let ?g = "\<lambda>st::store. ''R1''"
  let ?empty = "\<lparr>req_customerId = ''c'', req_sellerId = ''s'', req_items = [], req_discount = 0,
      req_discountType = Fixed, req_paymentMethod = ''cash''\<rparr>"
  let ?blank = "\<lparr>products = Map.empty, sales = [], saleItems = []\<rparr>"
  let ?req = "\<lparr>req_customerId = ''c'', req_sellerId = ''s'',
         req_items = [\<lparr>line_productId = ''P'', line_quantity = 2, unitPriceOverride = None\<rparr>],
         req_discount = 10, req_discountType = Percentage, req_paymentMethod = ''cash''\<rparr>"
  let ?st = "\<lparr>products = [''P'' \<mapsto> \<lparr>product_stockCode = ''SC1'', product_name = ''Bolt'',
                                product_buyingPrice = 60, product_sellingPrice = 100,
                                product_quantity = 3\<rparr>],
         sales = [], saleItems = []\<rparr>"
  let ?sale = "\<lparr>sale_receiptNumber = ''R1'', sale_customerId = ''c'', sale_sellerId = ''s'',
            sale_subtotal = 200, sale_discount = 10, sale_discountType = Percentage,
            sale_total = 180, sale_paymentMethod = ''cash''\<rparr>"
  have e: "req_items ?empty = []"
    by simp
  have s: "fst (recordSale ?g ?req ?st) = Inr ?sale"
    by code_simp
  then have s': "recordSale ?g ?req ?st = (Inr ?sale, snd (recordSale ?g ?req ?st))"
    by (simp add: prod_eq_iff)
  note t0 = empty_cart_rejected_by_writer_not_by_schema
    [where req = ?empty and st = ?blank and receipt_of = ?g, THEN conjunct1, rule_format, OF e]
  note t1 = empty_cart_rejected_by_writer_not_by_schema
    [where req = ?req and st = ?st and receipt_of = ?g and sale = ?sale
       and st' = "snd (recordSale ?g ?req ?st)", THEN conjunct2, THEN conjunct1, rule_format, OF s']
  from t1 have n: "length (saleItems (snd (recordSale ?g ?req ?st))) = 1"
    by simp
  from t0 s n show ?thesis
    by (intro conjI)
qed

lemma resolve_lines_Inr_all:
  "resolve_lines ps ls = Inr rs \<Longrightarrow> \<forall>l\<in>set ls. ps (line_productId l) \<noteq> None"
  by (induction ls arbitrary: rs) (auto split: option.splits sum.splits)

lemma offending_codes_resolved:
  "offending_codes (map (\<lambda>l. (l, the (ps (line_productId l)))) ls)
     = map (\<lambda>l. product_stockCode (the (ps (line_productId l))))
         (filter (\<lambda>l. product_quantity (the (ps (line_productId l))) < line_quantity l) ls)"
  by (simp add: offending_codes_def filter_map comp_def line_short_def not_le)

lemma resolve_lines_find:
  "find (\<lambda>l. ps (line_productId l) = None) ls = Some l \<Longrightarrow>
   resolve_lines ps ls = Inl (ProductNotFoundError (line_productId l))"
proof (induction ls)
  case Nil
  then show ?case by simp
next
  case (Cons a ls)
  show ?case
  proof (cases "ps (line_productId a)")
    case None
    with Cons.prems show ?thesis by simp
  next
    case (Some p)
    with Cons.prems have "find (\<lambda>l. ps (line_productId l) = None) ls = Some l"
      by simp
    from Cons.IH [OF this] Some show ?thesis by simp
  qed
qed

text \<open>
  Claim C7, as stated, on \<open>recordSale\<close> as the specification describes it, at a
  request of two lines: five of product \<open>P\<close>, of which three are in stock, and one of
  a product \<open>Q\<close> that the store does not have.  A line asks for more than its
  product's stock, and the failure is the product-not-found error for \<open>Q\<close>, not an
  insufficient-stock error: the lines are resolved before the stock is checked.
\<close>

theorem unknown_product_precedes_stock_check_counterexample:
  "(\<exists>l\<in>set (req_items
        \<lparr>req_customerId = ''c'', req_sellerId = ''s'',
         req_items = [\<lparr>line_productId = ''P'', line_quantity = 5, unitPriceOverride = None\<rparr>,
                      \<lparr>line_productId = ''Q'', line_quantity = 1, unitPriceOverride = None\<rparr>],
         req_discount = 0, req_discountType = Fixed, req_paymentMethod = ''cash''\<rparr>).
      \<exists>p. products
             \<lparr>products = [''P'' \<mapsto> \<lparr>product_stockCode = ''SC1'', product_name = ''Bolt'',
                                     product_buyingPrice = 60, product_sellingPrice = 100,
                                     product_quantity = 3\<rparr>],
              sales = [], saleItems = []\<rparr> (line_productId l) = Some p
          \<and> product_quantity p < line_quantity l)
   \<and> fst (recordSale (\<lambda>st. ''R1'')
        \<lparr>req_customerId = ''c'', req_sellerId = ''s'',
         req_items = [\<lparr>line_productId = ''P'', line_quantity = 5, unitPriceOverride = None\<rparr>,
                      \<lparr>line_productId = ''Q'', line_quantity = 1, unitPriceOverride = None\<rparr>],
         req_discount = 0, req_discountType = Fixed, req_paymentMethod = ''cash''\<rparr>
        \<lparr>products = [''P'' \<mapsto> \<lparr>product_stockCode = ''SC1'', product_name = ''Bolt'',
                                product_buyingPrice = 60, product_sellingPrice = 100,
                                product_quantity = 3\<rparr>],
         sales = [], saleItems = []\<rparr>)
     = Inl (ProductNotFoundError ''Q'')"
proof -
  let ?req = "\<lparr>req_customerId = ''c'', req_sellerId = ''s'',
         req_items = [\<lparr>line_productId = ''P'', line_quantity = 5, unitPriceOverride = None\<rparr>,
                      \<lparr>line_productId = ''Q'', line_quantity = 1, unitPriceOverride = None\<rparr>],
         req_discount = 0, req_discountType = Fixed, req_paymentMethod = ''cash''\<rparr>"
  let ?st = "\<lparr>products = [''P'' \<mapsto> \<lparr>product_stockCode = ''SC1'', product_name = ''Bolt'',
                                product_buyingPrice = 60, product_sellingPrice = 100,
                                product_quantity = 3\<rparr>],
         sales = [], saleItems = []\<rparr>"
  have short: "\<exists>l\<in>set (req_items ?req). \<exists>p. products ?st (line_productId l) = Some p
                 \<and> product_quantity p < line_quantity l"
    by simp
  have failure: "fst (recordSale (\<lambda>st. ''R1'') ?req ?st) = Inl (ProductNotFoundError ''Q'')"
    by code_simp
  from short failure show ?thesis
    by (rule conjI)
qed

text \<open>
  Claim C7, amended.  \<open>recordSale\<close>, as the specification describes it: when some
  line asks for more than the current stock of its product, the sale fails as a whole
  and the store, so every product's quantity, is as it was.  When every line refers
  to a product of the store, the failure is the insufficient-stock error, and it
  names the stock codes of exactly the lines that ask for too much, of which there is
  at least one.  When some line refers to a product the store does not have, the
  failure is the product-not-found error for the first such line.
\<close>

theorem insufficient_stock_rejects_whole_sale:
  assumes "\<exists>l\<in>set (req_items req). \<exists>p. products st (line_productId l) = Some p
             \<and> product_quantity p < line_quantity l"
  shows "(\<exists>e. recordSale receipt_of req st = (Inl e, st))
     \<and> ((\<forall>l\<in>set (req_items req). products st (line_productId l) \<noteq> None) \<longrightarrow>
          recordSale receipt_of req st =
            (Inl (InsufficientStockError
                   (map (\<lambda>l. product_stockCode (the (products st (line_productId l))))
                      (filter (\<lambda>l. product_quantity (the (products st (line_productId l))) < line_quantity l)
                         (req_items req)))), st)
          \<and> filter (\<lambda>l. product_quantity (the (products st (line_productId l))) < line_quantity l)
               (req_items req) \<noteq> [])
     \<and> (\<forall>l. find (\<lambda>l. products st (line_productId l) = None) (req_items req) = Some l \<longrightarrow>
          recordSale receipt_of req st = (Inl (ProductNotFoundError (line_productId l)), st))"
proof -
  let ?short = "\<lambda>l. product_quantity (the (products st (line_productId l))) < line_quantity l"
  let ?codes = "map (\<lambda>l. product_stockCode (the (products st (line_productId l))))
                  (filter ?short (req_items req))"
  from assms obtain l p where l: "l \<in> set (req_items req)"
    and p: "products st (line_productId l) = Some p" and q: "product_quantity p < line_quantity l"
    by blast
  have ne: "req_items req \<noteq> []"
    using l by auto
  have short: "filter ?short (req_items req) \<noteq> []"
    using l p q by (auto simp: filter_empty_conv intro!: bexI [of _ l])
  have resolved: "recordSale receipt_of req st = (Inl (InsufficientStockError ?codes), st)"
    if "resolve_lines (products st) (req_items req) = Inr rs" for rs
  proof -
    have "\<forall>l\<in>set (req_items req). products st (line_productId l) \<noteq> None"
      by (rule resolve_lines_Inr_all [OF that])
    from resolve_lines_all [OF this] that
    have rs: "rs = map (\<lambda>l. (l, the (products st (line_productId l)))) (req_items req)"
      by simp
    have codes: "offending_codes rs = ?codes"
      unfolding rs by (rule offending_codes_resolved)
    have "offending_codes rs \<noteq> []"
      using short by (simp add: codes)
    then show ?thesis
      using ne that by (simp add: recordSale_def codes)
  qed
  have fails: "\<exists>e. recordSale receipt_of req st = (Inl e, st)"
  proof (cases "resolve_lines (products st) (req_items req)")
    case (Inl e)
    then show ?thesis using ne by (simp add: recordSale_def)
  next
    case (Inr rs)
    from resolved [OF this] show ?thesis by blast
  qed
  have named: "recordSale receipt_of req st = (Inl (InsufficientStockError ?codes), st)"
    if "\<forall>l\<in>set (req_items req). products st (line_productId l) \<noteq> None"
    using resolved [OF resolve_lines_all [OF that]] .
  have unknown: "recordSale receipt_of req st = (Inl (ProductNotFoundError (line_productId m)), st)"
    if "find (\<lambda>l. products st (line_productId l) = None) (req_items req) = Some m" for m
    using resolve_lines_find [OF that] ne by (simp add: recordSale_def)
  from fails named short unknown show ?thesis
    by blast
qed

theorem insufficient_stock_rejects_whole_sale_witness:
  "recordSale (\<lambda>st. ''R1'')
     \<lparr>req_customerId = ''c'', req_sellerId = ''s'',
      req_items = [\<lparr>line_productId = ''P'', line_quantity = 5, unitPriceOverride = None\<rparr>],
      req_discount = 0, req_discountType = Fixed, req_paymentMethod = ''cash''\<rparr>
     \<lparr>products = [''P'' \<mapsto> \<lparr>product_stockCode = ''SC1'', product_name = ''Bolt'',
                             product_buyingPrice = 60, product_sellingPrice = 100,
                             product_quantity = 3\<rparr>],
      sales = [], saleItems = []\<rparr>
   = (Inl (InsufficientStockError [''SC1'']),
      \<lparr>products = [''P'' \<mapsto> \<lparr>product_stockCode = ''SC1'', product_name = ''Bolt'',
                              product_buyingPrice = 60, product_sellingPrice = 100,
                              product_quantity = 3\<rparr>],
       sales = [], saleItems = []\<rparr>)
   \<and> recordSale (\<lambda>st. ''R1'')
     \<lparr>req_customerId = ''c'', req_sellerId = ''s'',
      req_items = [\<lparr>line_productId = ''P'', line_quantity = 5, unitPriceOverride = None\<rparr>,
                   \<lparr>line_productId = ''Q'', line_quantity = 1, unitPriceOverride = None\<rparr>],
      req_discount = 0, req_discountType = Fixed, req_paymentMethod = ''cash''\<rparr>
     \<lparr>products = [''P'' \<mapsto> \<lparr>product_stockCode = ''SC1'', product_name = ''Bolt'',
                             product_buyingPrice = 60, product_sellingPrice = 100,
                             product_quantity = 3\<rparr>],
      sales = [], saleItems = []\<rparr>
   = (Inl (ProductNotFoundError ''Q''),
      \<lparr>products = [''P'' \<mapsto> \<lparr>product_stockCode = ''SC1'', product_name = ''Bolt'',
                              product_buyingPrice = 60, product_sellingPrice = 100,
                              product_quantity = 3\<rparr>],
       sales = [], saleItems = []\<rparr>)"
proof -
  let ?p = "\<lparr>line_productId = ''P'', line_quantity = 5, unitPriceOverride = None\<rparr>"
  let ?q = "\<lparr>line_productId = ''Q'', line_quantity = 1, unitPriceOverride = None\<rparr>"
  let ?req = "\<lparr>req_customerId = ''c'', req_sellerId = ''s'', req_items = [?p],
      req_discount = 0, req_discountType = Fixed, req_paymentMethod = ''cash''\<rparr>"
  let ?mixed = "\<lparr>req_customerId = ''c'', req_sellerId = ''s'', req_items = [?p, ?q],
      req_discount = 0, req_discountType = Fixed, req_paymentMethod = ''cash''\<rparr>"
  let ?st = "\<lparr>products = [''P'' \<mapsto> \<lparr>product_stockCode = ''SC1'', product_name = ''Bolt'',
                             product_buyingPrice = 60, product_sellingPrice = 100,
                             product_quantity = 3\<rparr>],
      sales = [], saleItems = []\<rparr>"
  have h: "\<exists>l\<in>set (req_items ?req). \<exists>p. products ?st (line_productId l) = Some p
             \<and> product_quantity p < line_quantity l"
    by simp
  have all: "\<forall>l\<in>set (req_items ?req). products ?st (line_productId l) \<noteq> None"
    by simp
  have h': "\<exists>l\<in>set (req_items ?mixed). \<exists>p. products ?st (line_productId l) = Some p
             \<and> product_quantity p < line_quantity l"
    by simp
  have first: "find (\<lambda>l. products ?st (line_productId l) = None) (req_items ?mixed) = Some ?q"
    by simp
  from insufficient_stock_rejects_whole_sale [OF h, of "\<lambda>st. ''R1''", THEN conjunct2, THEN conjunct1, THEN mp, OF all]
  have a: "recordSale (\<lambda>st. ''R1'') ?req ?st = (Inl (InsufficientStockError [''SC1'']), ?st)"
    by simp
  from insufficient_stock_rejects_whole_sale [OF h', of "\<lambda>st. ''R1''", THEN conjunct2, THEN conjunct2, THEN spec, THEN mp, OF first]
  have b: "recordSale (\<lambda>st. ''R1'') ?mixed ?st = (Inl (ProductNotFoundError ''Q''), ?st)"
    by simp
  from a b show ?thesis
    by (rule conjI)
qed

end
